theory Spec2Isabelle
  imports Complex_Main "HOL-Library.Sublist"
begin

section \<open>Data model\<close>

text \<open>
  The document browser of \<^verbatim>\<open>App.js\<close> (latest revision) is a React function component.
  Its state is the tuple of \<^verbatim>\<open>useState\<close> cells of \<^verbatim>\<open>App\<close>; every handler is embedded as a
  function from that state to the updated state together with the list of effects
  (HTTP requests, console output, timers) the handler performs. An \<^verbatim>\<open>async\<close> handler is
  cut at each \<^verbatim>\<open>await\<close>: the part before the \<^verbatim>\<open>await\<close> keeps the handler's name, the
  continuation that runs when the awaited response arrives carries the suffix
  \<^verbatim>\<open>_resume\<close> and takes the response as an argument.
\<close>

datatype node_type = Folder | File

text \<open>A node of the tree served by \<^verbatim>\<open>GET /api/file-tree\<close>: \<^verbatim>\<open>{path, name, type, children}\<close>.\<close>

datatype TreeNode =
  TreeNode (node_path: string) (node_name: string) (node_type: node_type)
    (children: "TreeNode list")

text \<open>A document as the backend serialises it; \<^verbatim>\<open>content\<close> may be null.\<close>

record Document =
  doc_id :: string
  doc_name :: string
  relative_path :: string
  doc_path :: string
  file_type :: string
  doc_size :: nat
  updated_at :: string
  content :: "string option"

record SearchResult =
  document :: Document
  relevance_score :: real
  snippet :: string

record Stats =
  total_documents :: nat

text \<open>The \<^verbatim>\<open>useState\<close> cells of \<^verbatim>\<open>App\<close>, in the order of their declaration.\<close>

record app_state =
  fileTree :: "TreeNode option"
  searchQuery :: string
  searchResults :: "SearchResult list"
  isSearching :: bool
  selectedDocument :: "Document option"
  stats :: "Stats option"
  isLoading :: bool
  selectedFilePath :: string
  expandedPaths :: "string set"
  previewDocument :: "Document option"

definition initial_state :: app_state where
  "initial_state =
     \<lparr>fileTree = None, searchQuery = [], searchResults = [], isSearching = False,
      selectedDocument = None, stats = None, isLoading = True, selectedFilePath = [],
      expandedPaths = {}, previewDocument = None\<rparr>"

subsection \<open>Effects and responses\<close>

datatype request =
  GetFileTree
| GetStats
| PostScan
| PostSearch string nat
| GetDocumentByPath string

text \<open>
  What a handler does besides updating the state. \<^verbatim>\<open>SetTimeoutReload d\<close> is
  \<^verbatim>\<open>setTimeout(() => { loadFileTree(); loadStats(); }, d)\<close>, the only timer of the
  program; the program never calls \<^verbatim>\<open>clearTimeout\<close>, so there is no effect for it.
\<close>

datatype effect =
  Http request
| ConsoleError string
| SetTimeoutReload nat
| PreventDefault
| WindowOpen string

text \<open>A rejected axios promise: no response at all, or a status outside 2xx.\<close>

datatype http_error = NetworkError | HttpStatus nat

type_synonym 'a response = "http_error + 'a"

section \<open>String primitives of the host language\<close>

text \<open>
  \<^verbatim>\<open>String.prototype.split\<close> with a one-character separator: the pieces between the
  separators, empty pieces included; the empty string splits into one empty piece.
\<close>

fun split :: "char \<Rightarrow> string \<Rightarrow> string list" where
  "split sep [] = [[]]"
| "split sep (c # cs) =
     (if c = sep then [] # split sep cs
      else (case split sep cs of
              [] \<Rightarrow> [[c]]
            | w # ws \<Rightarrow> (c # w) # ws))"

text \<open>
  \<^verbatim>\<open>String.prototype.replace\<close> with a string pattern: the first occurrence of the
  pattern, wherever it is, is replaced; a string without the pattern is returned as it is.
\<close>

fun replace :: "string \<Rightarrow> string \<Rightarrow> string \<Rightarrow> string" where
  "replace pat rep [] = (if pat = [] then rep else [])"
| "replace pat rep (c # cs) =
     (if prefix pat (c # cs) then rep @ drop (length pat) (c # cs)
      else c # replace pat rep cs)"

text \<open>
  \<^verbatim>\<open>String.prototype.trim\<close> removes white space and line terminators from both ends.
  A \<^typ>\<open>char\<close> is one byte here, read as a code unit below 256; of those, the ones
  \<^verbatim>\<open>trim\<close> removes are TAB, LF, VT, FF, CR, SP and NBSP.
\<close>

definition isWhiteSpace :: "char \<Rightarrow> bool" where
  "isWhiteSpace c = (of_char c \<in> {9, 10, 11, 12, 13, 32, 160 :: nat})"

definition trim :: "string \<Rightarrow> string" where
  "trim s = rev (dropWhile isWhiteSpace (rev (dropWhile isWhiteSpace s)))"

section \<open>The view: what the main panel shows\<close>

text \<open>The element \<^verbatim>\<open>renderMainContent\<close> returns, with the props it is given.\<close>

datatype main_content =
  DocumentPreviewMain Document
| SearchLoading
| ResultsContainer "SearchResult list" string
| NoResultsMessage string
| WelcomeMessage

datatype view_state = Preview | Loading | Results | NoResults | Welcome

fun view_of :: "main_content \<Rightarrow> view_state" where
  "view_of (DocumentPreviewMain d) = Preview"
| "view_of SearchLoading = Loading"
| "view_of (ResultsContainer rs q) = Results"
| "view_of (NoResultsMessage q) = NoResults"
| "view_of WelcomeMessage = Welcome"

text \<open>
  \<^verbatim>\<open>renderMainContent\<close>: \<^verbatim>\<open>if (previewDocument)\<close> tests for a non-null document,
  \<^verbatim>\<open>searchResults.length > 0\<close> for a non-empty list, \<^verbatim>\<open>searchQuery\<close> for a non-empty string.
\<close>

definition renderMainContent :: "app_state \<Rightarrow> main_content" where
  "renderMainContent s =
     (case previewDocument s of
        Some d \<Rightarrow> DocumentPreviewMain d
      | None \<Rightarrow>
          if isSearching s then SearchLoading
          else if length (searchResults s) > 0
            then ResultsContainer (searchResults s) (searchQuery s)
          else if searchQuery s \<noteq> [] then NoResultsMessage (searchQuery s)
          else WelcomeMessage)"

text \<open>
  \<^verbatim>\<open>App\<close> returns the loading screen without a main panel while \<^verbatim>\<open>isLoading\<close> holds.
\<close>

definition App_main_panel :: "app_state \<Rightarrow> main_content option" where
  "App_main_panel s = (if isLoading s then None else Some (renderMainContent s))"

text \<open>\<^verbatim>\<open>FileTreeNode\<close> reads the expansion set with \<^verbatim>\<open>expandedPaths.has(node.path)\<close>.\<close>

definition isExpanded :: "string set \<Rightarrow> string \<Rightarrow> bool" where
  "isExpanded expanded p = (p \<in> expanded)"

text \<open>
  The paths of the nodes \<^verbatim>\<open>FileTreeNode\<close> renders below and including a node: the
  children of a folder are rendered only when the folder's own path is expanded.
\<close>

fun rendered_paths :: "string set \<Rightarrow> TreeNode \<Rightarrow> string list" where
  "rendered_paths expanded (TreeNode p n t cs) =
     p # (if t = Folder \<and> isExpanded expanded p
          then concat (map (rendered_paths expanded) cs) else [])"

section \<open>Handlers\<close>

text \<open>
  A handler is a closure of the render that created it and reads the cells as that
  render saw them. \<^verbatim>\<open>handleToggleExpanded\<close>, whose calls are put in sequence below,
  takes what its render saw as an argument; the other handlers are written as called
  from the render of the state they are applied to.
\<close>

subsection \<open>Loading the tree and the statistics\<close>

definition loadFileTree :: "effect list" where
  "loadFileTree = [Http GetFileTree]"

definition loadFileTree_resume :: "TreeNode response \<Rightarrow> app_state \<Rightarrow> app_state \<times> effect list" where
  "loadFileTree_resume resp s =
     (case resp of
        Inr data \<Rightarrow> (s\<lparr>fileTree := Some data, isLoading := False\<rparr>, [])
      | Inl err \<Rightarrow> (s\<lparr>isLoading := False\<rparr>, [ConsoleError ''Error loading file tree:'']))"

definition loadStats :: "effect list" where
  "loadStats = [Http GetStats]"

definition loadStats_resume :: "Stats response \<Rightarrow> app_state \<Rightarrow> app_state \<times> effect list" where
  "loadStats_resume resp s =
     (case resp of
        Inr data \<Rightarrow> (s\<lparr>stats := Some data\<rparr>, [])
      | Inl err \<Rightarrow> (s, [ConsoleError ''Error loading stats:'']))"

text \<open>The mount effect: load both, then post the initial scan without awaiting it.\<close>

definition mount :: "effect list" where
  "mount = loadFileTree @ loadStats @ [Http PostScan]"

definition initial_scan_resume :: "unit response \<Rightarrow> effect list" where
  "initial_scan_resume resp = (case resp of Inr u \<Rightarrow> [] | Inl err \<Rightarrow> [ConsoleError []])"

subsection \<open>Search\<close>

definition handleSearch :: "app_state \<Rightarrow> app_state \<times> effect list" where
  "handleSearch s =
     (if trim (searchQuery s) = [] then (s\<lparr>searchResults := []\<rparr>, [PreventDefault])
      else (s\<lparr>isSearching := True\<rparr>,
            [PreventDefault, Http (PostSearch (searchQuery s) 50)]))"

text \<open>
  The response body is \<^verbatim>\<open>{results}\<close>; \<^verbatim>\<open>response.data.results || []\<close> turns a missing
  list into the empty one.
\<close>

definition handleSearch_resume ::
  "SearchResult list option response \<Rightarrow> app_state \<Rightarrow> app_state \<times> effect list" where
  "handleSearch_resume resp s =
     (case resp of
        Inr results \<Rightarrow>
          (s\<lparr>searchResults := (case results of Some rs \<Rightarrow> rs | None \<Rightarrow> []),
             isSearching := False\<rparr>, [])
      | Inl err \<Rightarrow>
          (s\<lparr>searchResults := [], isSearching := False\<rparr>, [ConsoleError ''Search error:'']))"

definition setSearchQuery :: "string \<Rightarrow> app_state \<Rightarrow> app_state" where
  "setSearchQuery q s = s\<lparr>searchQuery := q\<rparr>"

subsection \<open>Selecting a file in the tree\<close>

text \<open>
  \<^verbatim>\<open>loadDocumentByPath\<close> after its \<^verbatim>\<open>await\<close>: the body of the response (a document, or
  null), and null with a console message when the request was rejected.
\<close>

definition loadDocumentByPath :: "string \<Rightarrow> effect list" where
  "loadDocumentByPath relativePath = [Http (GetDocumentByPath relativePath)]"

definition loadDocumentByPath_resume ::
  "Document option response \<Rightarrow> Document option \<times> effect list" where
  "loadDocumentByPath_resume resp =
     (case resp of
        Inr data \<Rightarrow> (data, [])
      | Inl err \<Rightarrow> (None, [ConsoleError ''Error loading document:'']))"

definition handleFileSelect :: "TreeNode \<Rightarrow> app_state \<Rightarrow> app_state \<times> effect list" where
  "handleFileSelect fileNode s =
     (let relativePath = replace ''/var/www/html/MPK/doc/'' [] (node_path fileNode)
      in (s\<lparr>selectedFilePath := node_path fileNode\<rparr>, loadDocumentByPath relativePath))"

definition handleFileSelect_resume ::
  "Document option response \<Rightarrow> app_state \<Rightarrow> app_state \<times> effect list" where
  "handleFileSelect_resume resp s =
     (case loadDocumentByPath_resume resp of
        (Some doc, effs) \<Rightarrow> (s\<lparr>previewDocument := Some doc\<rparr>, effs)
      | (None, effs) \<Rightarrow> (s, effs))"

subsection \<open>Activating a search result\<close>

text \<open>
  The loop of \<^verbatim>\<open>handleResultClick\<close> over \<^verbatim>\<open>pathParts[0 .. length - 2]\<close>:
  \<^verbatim>\<open>currentPath += (currentPath ? '/' : '') + pathParts[i]; newExpandedPaths.add(currentPath)\<close>.
  An empty \<^verbatim>\<open>currentPath\<close> is falsy, so no separator is put after it.
\<close>

fun expandLoop :: "string list \<Rightarrow> string \<Rightarrow> string set \<Rightarrow> string set" where
  "expandLoop [] currentPath newExpandedPaths = newExpandedPaths"
| "expandLoop (part # parts) currentPath newExpandedPaths =
     (let currentPath' = currentPath @ (if currentPath \<noteq> [] then ''/'' else []) @ part
      in expandLoop parts currentPath' (insert currentPath' newExpandedPaths))"

text \<open>
  Lines 311 to 318 of \<^verbatim>\<open>handleResultClick\<close> as a function of the document's path and
  of the expansion set that is copied: split the path at the slashes and run the loop
  over all pieces but the last.
\<close>

definition expandAncestorsOf :: "string \<Rightarrow> string set \<Rightarrow> string set" where
  "expandAncestorsOf p expanded =
     (let pathParts = split (CHR ''/'') p
      in expandLoop (take (length pathParts - 1) pathParts) [] expanded)"

definition handleResultClick :: "SearchResult \<Rightarrow> app_state \<Rightarrow> app_state \<times> effect list" where
  "handleResultClick result s =
     (s\<lparr>selectedFilePath := doc_path (document result),
        expandedPaths := expandAncestorsOf (doc_path (document result)) (expandedPaths s),
        previewDocument := Some (document result)\<rparr>, [])"

text \<open>\<^verbatim>\<open>handleDownload\<close> opens the download address of the document, named by its id.\<close>

definition handleDownload :: "Document \<Rightarrow> effect list" where
  "handleDownload doc = [WindowOpen (doc_id doc)]"

subsection \<open>Expansion, preview, rescan\<close>

text \<open>
  The body of \<^verbatim>\<open>handleToggleExpanded\<close> on the copied set: delete the path if the set
  has it, add it otherwise.
\<close>

definition toggle :: "string \<Rightarrow> string set \<Rightarrow> string set" where
  "toggle p expanded = (if p \<in> expanded then expanded - {p} else insert p expanded)"

text \<open>
  \<^verbatim>\<open>handleToggleExpanded\<close> is a closure of the render that created it: it copies the
  \<^verbatim>\<open>expandedPaths\<close> that render saw (the first argument), flips the path there and
  stores the result with \<^verbatim>\<open>setExpandedPaths(newExpandedPaths)\<close>, a value and not an
  updater. The set stored at the time of the call is overwritten, not read.
\<close>

definition handleToggleExpanded :: "string set \<Rightarrow> string \<Rightarrow> app_state \<Rightarrow> app_state" where
  "handleToggleExpanded captured p s = s\<lparr>expandedPaths := toggle p captured\<rparr>"

text \<open>
  The click handler of \<^verbatim>\<open>FileTreeNode\<close>; \<^verbatim>\<open>onToggleExpanded\<close> is the
  \<^verbatim>\<open>handleToggleExpanded\<close> of the render that drew the node.
\<close>

definition handleClick ::
  "string set \<Rightarrow> TreeNode \<Rightarrow> app_state \<Rightarrow> app_state \<times> effect list" where
  "handleClick captured node s =
     (if node_type node = Folder then (handleToggleExpanded captured (node_path node) s, [])
      else handleFileSelect node s)"

text \<open>
  Toggle calls with a render between any two of them, as for separate clicks: every call
  is made by the handler of the render of the state the previous call has left.
\<close>

fun toggle_clicks :: "string list \<Rightarrow> app_state \<Rightarrow> app_state" where
  "toggle_clicks [] s = s"
| "toggle_clicks (p # ps) s = toggle_clicks ps (handleToggleExpanded (expandedPaths s) p s)"

text \<open>The \<^verbatim>\<open>onClose\<close> of the preview: \<^verbatim>\<open>() => setPreviewDocument(null)\<close>.\<close>

definition closePreview :: "app_state \<Rightarrow> app_state" where
  "closePreview s = s\<lparr>previewDocument := None\<rparr>"

text \<open>
  \<^verbatim>\<open>triggerRescan\<close> awaits the scan request inside \<^verbatim>\<open>try\<close>; the timer is set after the
  \<^verbatim>\<open>await\<close>, so only when the request was answered; a rejected request goes to \<^verbatim>\<open>catch\<close>.
\<close>

definition triggerRescan :: "effect list" where
  "triggerRescan = [Http PostScan]"

definition triggerRescan_resume :: "unit response \<Rightarrow> effect list" where
  "triggerRescan_resume resp =
     (case resp of
        Inr u \<Rightarrow> [SetTimeoutReload 2000]
      | Inl err \<Rightarrow> [ConsoleError ''Error triggering rescan:''])"

definition reload_callback :: "effect list" where
  "reload_callback = loadFileTree @ loadStats"

section \<open>The coordinator as an event system\<close>

text \<open>
  Everything that can happen to the mounted component: a user action invokes a handler,
  a response resumes the handler that awaited it, the timer runs its callback. The
  environment chooses the order in which responses arrive. The component is rendered
  again after every event, so the handler a user action invokes is the one of the
  render of the current state.
\<close>

datatype event =
  Mount
| NodeClick TreeNode
| ResultClick SearchResult
| QueryInput string
| SearchSubmit
| ClosePreview
| RescanClick
| TimerFires
| FileTreeResponse "TreeNode response"
| StatsResponse "Stats response"
| InitialScanResponse "unit response"
| RescanResponse "unit response"
| SearchResponse "SearchResult list option response"
| DocumentResponse "Document option response"

fun step :: "event \<Rightarrow> app_state \<Rightarrow> app_state \<times> effect list" where
  "step Mount s = (s, mount)"
| "step (NodeClick node) s = handleClick (expandedPaths s) node s"
| "step (ResultClick result) s = handleResultClick result s"
| "step (QueryInput q) s = (setSearchQuery q s, [])"
| "step SearchSubmit s = handleSearch s"
| "step ClosePreview s = (closePreview s, [])"
| "step RescanClick s = (s, triggerRescan)"
| "step TimerFires s = (s, reload_callback)"
| "step (FileTreeResponse resp) s = loadFileTree_resume resp s"
| "step (StatsResponse resp) s = loadStats_resume resp s"
| "step (InitialScanResponse resp) s = (s, initial_scan_resume resp)"
| "step (RescanResponse resp) s = (s, triggerRescan_resume resp)"
| "step (SearchResponse resp) s = handleSearch_resume resp s"
| "step (DocumentResponse resp) s = handleFileSelect_resume resp s"

text \<open>
  The component in its environment: the state, the delays of the timers set and not yet
  run (oldest first; all have the same delay, so they run in the order they were set),
  and every effect performed so far.
\<close>

record world =
  app :: app_state
  pending_timers :: "nat list"
  trace :: "effect list"

fun timers_of :: "effect list \<Rightarrow> nat list" where
  "timers_of [] = []"
| "timers_of (SetTimeoutReload d # effs) = d # timers_of effs"
| "timers_of (e # effs) = timers_of effs"

fun requests_of :: "effect list \<Rightarrow> request list" where
  "requests_of [] = []"
| "requests_of (Http r # effs) = r # requests_of effs"
| "requests_of (e # effs) = requests_of effs"

fun is_timer :: "event \<Rightarrow> bool" where
  "is_timer TimerFires = True"
| "is_timer ev = False"

text \<open>A timer can run only if one is pending; running it removes it.\<close>

definition deliver :: "event \<Rightarrow> world \<Rightarrow> world" where
  "deliver ev w =
     (if is_timer ev \<and> pending_timers w = [] then w
      else (case step ev (app w) of
              (s', effs) \<Rightarrow>
                \<lparr>app = s',
                 pending_timers =
                   (if is_timer ev then tl (pending_timers w) else pending_timers w)
                     @ timers_of effs,
                 trace = trace w @ effs\<rparr>))"

fun run :: "event list \<Rightarrow> world \<Rightarrow> world" where
  "run [] w = w"
| "run (ev # evs) w = run evs (deliver ev w)"

definition initial_world :: world where
  "initial_world = \<lparr>app = initial_state, pending_timers = [], trace = []\<rparr>"

section \<open>Sample data\<close>

text \<open>A small corpus under the corpus root, used to run the handlers on concrete inputs.\<close>

definition mk_doc :: "string \<Rightarrow> string \<Rightarrow> string \<Rightarrow> Document" where
  "mk_doc i n p =
     \<lparr>doc_id = i, doc_name = n,
      relative_path = replace ''/var/www/html/MPK/doc/'' [] p, doc_path = p,
      file_type = ''txt'', doc_size = 12, updated_at = ''2024-01-01T00:00:00'',
      content = Some ''hello world''\<rparr>"

definition docA :: Document where
  "docA = mk_doc ''1'' ''a.txt'' ''/var/www/html/MPK/doc/a.txt''"

definition docB :: Document where
  "docB = mk_doc ''2'' ''b.txt'' ''/var/www/html/MPK/doc/b.txt''"

definition nodeA :: TreeNode where
  "nodeA = TreeNode ''/var/www/html/MPK/doc/a.txt'' ''a.txt'' File []"

definition nodeB :: TreeNode where
  "nodeB = TreeNode ''/var/www/html/MPK/doc/b.txt'' ''b.txt'' File []"

definition budget_node :: TreeNode where
  "budget_node = TreeNode ''/var/www/html/MPK/doc/reports/budget.txt'' ''budget.txt'' File []"

definition reports_node :: TreeNode where
  "reports_node = TreeNode ''/var/www/html/MPK/doc/reports'' ''reports'' Folder [budget_node]"

definition root_node :: TreeNode where
  "root_node = TreeNode ''/var/www/html/MPK/doc'' ''doc'' Folder [nodeA, nodeB, reports_node]"

definition budget_result :: SearchResult where
  "budget_result =
     \<lparr>document = mk_doc ''7'' ''budget.txt'' ''/var/www/html/MPK/doc/reports/budget.txt'',
      relevance_score = 1, snippet = ''budget''\<rparr>"

definition abc_result :: SearchResult where
  "abc_result =
     \<lparr>document = mk_doc ''3'' ''c.txt'' ''/a/b/c.txt'', relevance_score = 1, snippet = []\<rparr>"

definition resultA :: SearchResult where
  "resultA = \<lparr>document = docA, relevance_score = 1, snippet = ''hello''\<rparr>"

text \<open>The component once the tree and the statistics have arrived and the root is open.\<close>

definition loaded_world :: world where
  "loaded_world =
     run [Mount, FileTreeResponse (Inr root_node),
          StatsResponse (Inr \<lparr>total_documents = 2\<rparr>), NodeClick root_node] initial_world"

text \<open>A state that shows a preview, a search in flight and an earlier result list at once.\<close>

definition busy_state :: app_state where
  "busy_state =
     initial_state\<lparr>isLoading := False, searchQuery := ''hello'', searchResults := [resultA],
       isSearching := True, previewDocument := Some docB\<rparr>"

section \<open>The view reconciler\<close>

lemma view_of_renderMainContent:
  "view_of (renderMainContent s) =
     (if previewDocument s \<noteq> None then Preview
      else if isSearching s then Loading
      else if searchResults s \<noteq> [] then Results
      else if searchQuery s \<noteq> [] then NoResults
      else Welcome)"
  by (simp add: renderMainContent_def split: option.split)

text \<open>
  Claim C2. The main panel is decided by the first matching test, in the order
  preview document, search in flight, non-empty results, non-empty query, and is the
  welcome message when none matches. The preview shown is the preview document itself.
  In particular a state with a preview document, a search in flight and a non-empty
  result list shows the preview. Once the initial load is over, every render of the
  component shows this panel.
\<close>

theorem renderMainContent_priority:
  "view_of (renderMainContent s) =
     (if previewDocument s \<noteq> None then Preview
      else if isSearching s then Loading
      else if searchResults s \<noteq> [] then Results
      else if searchQuery s \<noteq> [] then NoResults
      else Welcome)
   \<and> (\<forall>d. previewDocument s = Some d \<longrightarrow> renderMainContent s = DocumentPreviewMain d)
   \<and> (previewDocument s \<noteq> None \<and> isSearching s \<and> searchResults s \<noteq> []
        \<longrightarrow> view_of (renderMainContent s) = Preview)
   \<and> (\<not> isLoading s \<longrightarrow> App_main_panel s = Some (renderMainContent s))"
  by (simp add: renderMainContent_def App_main_panel_def split: option.split)

theorem renderMainContent_priority_witness:
  "previewDocument busy_state \<noteq> None \<and> isSearching busy_state
   \<and> searchResults busy_state \<noteq> []
   \<and> view_of (renderMainContent busy_state) = Preview
   \<and> renderMainContent busy_state = DocumentPreviewMain docB
   \<and> App_main_panel busy_state = Some (DocumentPreviewMain docB)"
  using renderMainContent_priority [of busy_state]
  by (simp add: busy_state_def initial_state_def)

text \<open>
  Claim C10. Closing the preview sets the preview document to null and writes no other
  cell: query, results, the in-flight flag, the selected path and the expansion set
  (and the tree, the statistics and the loading flag) are as before. The main panel
  is then decided by the remaining tests, so it is never the preview.
\<close>

theorem closePreview_frame:
  "previewDocument (closePreview s) = None
   \<and> searchQuery (closePreview s) = searchQuery s
   \<and> searchResults (closePreview s) = searchResults s
   \<and> isSearching (closePreview s) = isSearching s
   \<and> selectedFilePath (closePreview s) = selectedFilePath s
   \<and> expandedPaths (closePreview s) = expandedPaths s
   \<and> fileTree (closePreview s) = fileTree s
   \<and> stats (closePreview s) = stats s
   \<and> isLoading (closePreview s) = isLoading s
   \<and> selectedDocument (closePreview s) = selectedDocument s
   \<and> step ClosePreview s = (closePreview s, [])
   \<and> view_of (renderMainContent (closePreview s)) =
       (if isSearching s then Loading
        else if searchResults s \<noteq> [] then Results
        else if searchQuery s \<noteq> [] then NoResults
        else Welcome)
   \<and> view_of (renderMainContent (closePreview s)) \<noteq> Preview"
  by (simp add: closePreview_def view_of_renderMainContent)

theorem closePreview_frame_witness:
  "view_of (renderMainContent busy_state) = Preview
   \<and> view_of (renderMainContent (closePreview busy_state)) = Loading
   \<and> searchResults (closePreview busy_state) = [resultA]
   \<and> searchQuery (closePreview busy_state) = ''hello''"
  using closePreview_frame [of busy_state]
  by (simp add: busy_state_def initial_state_def view_of_renderMainContent)

section \<open>The expansion set\<close>





text \<open>Clicks on folder nodes, delivered as events, are toggle calls with a render between.\<close>

lemma run_NodeClick_folders:
  "\<forall>n\<in>set nodes. node_type n = Folder \<Longrightarrow>
   app (run (map NodeClick nodes) w) = toggle_clicks (map node_path nodes) (app w)"
  by (induction nodes arbitrary: w) (simp_all add: deliver_def handleClick_def)




section \<open>Search submission\<close>

lemma trim_Nil_iff: "trim q = [] \<longleftrightarrow> (\<forall>c\<in>set q. isWhiteSpace c)"
proof
  assume empty: "trim q = []"
  have "dropWhile isWhiteSpace q = []"
  proof (rule ccontr)
    assume nonempty: "dropWhile isWhiteSpace q \<noteq> []"
    then have "\<not> isWhiteSpace (hd (dropWhile isWhiteSpace q))"
      by (rule hd_dropWhile)
    moreover have "hd (dropWhile isWhiteSpace q) \<in> set (rev (dropWhile isWhiteSpace q))"
      using nonempty by simp
    ultimately have "dropWhile isWhiteSpace (rev (dropWhile isWhiteSpace q)) \<noteq> []"
      by (metis dropWhile_eq_Nil_conv)
    with empty show False by (simp add: trim_def del: dropWhile_eq_Nil_conv)
  qed
  then show "\<forall>c\<in>set q. isWhiteSpace c"
    by (simp)
next
  assume "\<forall>c\<in>set q. isWhiteSpace c"
  then have "dropWhile isWhiteSpace q = []"
    by (simp)
  then show "trim q = []" by (simp add: trim_def del: dropWhile_eq_Nil_conv)
qed

text \<open>
  Claim C7. A submission whose query is empty or made of white space only sends no
  request, clears the result list and writes no other cell; in particular the
  in-flight flag and the query are as before, and nothing is logged. (A query with any
  other character does send the search request.)
\<close>

theorem handleSearch_blank:
  "(\<forall>c\<in>set (searchQuery s). isWhiteSpace c) \<longrightarrow>
     requests_of (snd (handleSearch s)) = []
     \<and> snd (handleSearch s) = [PreventDefault]
     \<and> searchResults (fst (handleSearch s)) = []
     \<and> isSearching (fst (handleSearch s)) = isSearching s
     \<and> searchQuery (fst (handleSearch s)) = searchQuery s
     \<and> fst (handleSearch s) = s\<lparr>searchResults := []\<rparr>"
  by (simp add: handleSearch_def trim_Nil_iff)

theorem handleSearch_blank_witness:
  "list_all isWhiteSpace (searchQuery (busy_state\<lparr>searchQuery := [CHR '' '', CHR 0x09, CHR '' '']\<rparr>))
   \<and> requests_of (snd (handleSearch (busy_state\<lparr>searchQuery := [CHR '' '', CHR 0x09, CHR '' '']\<rparr>))) = []
   \<and> searchResults (fst (handleSearch (busy_state\<lparr>searchQuery := [CHR '' '', CHR 0x09, CHR '' '']\<rparr>))) = []
   \<and> isSearching (fst (handleSearch (busy_state\<lparr>searchQuery := [CHR '' '', CHR 0x09, CHR '' '']\<rparr>)))"
proof -
  have blank: "\<forall>c\<in>set (searchQuery (busy_state\<lparr>searchQuery := [CHR '' '', CHR 0x09, CHR '' '']\<rparr>)).
      isWhiteSpace c"
    by (simp add: isWhiteSpace_def)
  from blank handleSearch_blank [of "busy_state\<lparr>searchQuery := [CHR '' '', CHR 0x09, CHR '' '']\<rparr>"]
  show ?thesis
    by (simp add: busy_state_def initial_state_def isWhiteSpace_def)
qed

lemma handleSearch_nonblank:
  "\<not> (\<forall>c\<in>set (searchQuery s). isWhiteSpace c) \<Longrightarrow>
     handleSearch s = (s\<lparr>isSearching := True\<rparr>,
                       [PreventDefault, Http (PostSearch (searchQuery s) 50)])"
  by (simp add: handleSearch_def trim_Nil_iff)

section \<open>Selecting a file: resolution of the document\<close>

lemma replace_prefix: "pat \<noteq> [] \<Longrightarrow> replace pat rep (pat @ xs) = rep @ xs"
  by (cases pat) simp_all

lemma handleFileSelect_resume_found:
  "handleFileSelect_resume (Inr (Some d)) s = (s\<lparr>previewDocument := Some d\<rparr>, [])"
  by (simp add: handleFileSelect_resume_def loadDocumentByPath_resume_def)

lemma handleFileSelect_resume_missing:
  "handleFileSelect_resume (Inr None) s = (s, [])"
  by (simp add: handleFileSelect_resume_def loadDocumentByPath_resume_def)

lemma handleFileSelect_resume_failed:
  "handleFileSelect_resume (Inl err) s = (s, [ConsoleError ''Error loading document:''])"
  by (simp add: handleFileSelect_resume_def loadDocumentByPath_resume_def)

text \<open>
  Claim C9. Selecting a node sets the selected path to the node's path at once and asks
  for the document under the node's path with the corpus root removed. When the backend
  has no document there (the request is rejected, or its body is null), the
  continuation applies no update: the state after it is the state before it, so the
  preview document is what it was (unset if it was unset), the selected path is still
  the clicked node's, the main panel is unchanged, and the only trace is a console line.
\<close>

theorem handleFileSelect_not_found:
  "(resp = Inr None \<or> resp = Inl err) \<longrightarrow>
     selectedFilePath (fst (handleFileSelect node s)) = node_path node
     \<and> previewDocument (fst (handleFileSelect node s)) = previewDocument s
     \<and> snd (handleFileSelect node s) =
         [Http (GetDocumentByPath (replace ''/var/www/html/MPK/doc/'' [] (node_path node)))]
     \<and> (node_path node = ''/var/www/html/MPK/doc/'' @ rel \<longrightarrow>
          snd (handleFileSelect node s) = [Http (GetDocumentByPath rel)])
     \<and> fst (handleFileSelect_resume resp (fst (handleFileSelect node s)))
         = fst (handleFileSelect node s)
     \<and> previewDocument (fst (handleFileSelect_resume resp (fst (handleFileSelect node s))))
         = previewDocument s
     \<and> (previewDocument s = None \<longrightarrow>
          previewDocument (fst (handleFileSelect_resume resp (fst (handleFileSelect node s))))
            = None)
     \<and> selectedFilePath (fst (handleFileSelect_resume resp (fst (handleFileSelect node s))))
         = node_path node
     \<and> view_of (renderMainContent
           (fst (handleFileSelect_resume resp (fst (handleFileSelect node s)))))
         = view_of (renderMainContent s)
     \<and> set (snd (handleFileSelect_resume resp (fst (handleFileSelect node s))))
         \<subseteq> {ConsoleError ''Error loading document:''}"
proof
  assume "resp = Inr None \<or> resp = Inl err"
  then have resume: "fst (handleFileSelect_resume resp t) = t"
    and effs: "set (snd (handleFileSelect_resume resp t))
                 \<subseteq> {ConsoleError ''Error loading document:''}" for t
    by (auto simp: handleFileSelect_resume_missing handleFileSelect_resume_failed)
  have strip: "replace ''/var/www/html/MPK/doc/'' [] (''/var/www/html/MPK/doc/'' @ rel) = rel"
    using replace_prefix [of "''/var/www/html/MPK/doc/''" "[]" rel] by simp
  have sync: "handleFileSelect node s =
      (s\<lparr>selectedFilePath := node_path node\<rparr>,
       [Http (GetDocumentByPath (replace ''/var/www/html/MPK/doc/'' [] (node_path node)))])"
    by (simp add: handleFileSelect_def loadDocumentByPath_def)
  show "selectedFilePath (fst (handleFileSelect node s)) = node_path node
     \<and> previewDocument (fst (handleFileSelect node s)) = previewDocument s
     \<and> snd (handleFileSelect node s) =
         [Http (GetDocumentByPath (replace ''/var/www/html/MPK/doc/'' [] (node_path node)))]
     \<and> (node_path node = ''/var/www/html/MPK/doc/'' @ rel \<longrightarrow>
          snd (handleFileSelect node s) = [Http (GetDocumentByPath rel)])
     \<and> fst (handleFileSelect_resume resp (fst (handleFileSelect node s)))
         = fst (handleFileSelect node s)
     \<and> previewDocument (fst (handleFileSelect_resume resp (fst (handleFileSelect node s))))
         = previewDocument s
     \<and> (previewDocument s = None \<longrightarrow>
          previewDocument (fst (handleFileSelect_resume resp (fst (handleFileSelect node s))))
            = None)
     \<and> selectedFilePath (fst (handleFileSelect_resume resp (fst (handleFileSelect node s))))
         = node_path node
     \<and> view_of (renderMainContent
           (fst (handleFileSelect_resume resp (fst (handleFileSelect node s)))))
         = view_of (renderMainContent s)
     \<and> set (snd (handleFileSelect_resume resp (fst (handleFileSelect node s))))
         \<subseteq> {ConsoleError ''Error loading document:''}"
    unfolding resume using effs strip
    by (simp add: sync view_of_renderMainContent)
qed

theorem handleFileSelect_not_found_witness:
  "(Inl (HttpStatus 404) :: Document option response) = Inl (HttpStatus 404)
   \<and> selectedFilePath (fst (handleFileSelect nodeA (app loaded_world))) = node_path nodeA
   \<and> snd (handleFileSelect nodeA (app loaded_world)) = [Http (GetDocumentByPath ''a.txt'')]
   \<and> previewDocument (fst (handleFileSelect_resume (Inl (HttpStatus 404))
        (fst (handleFileSelect nodeA (app loaded_world))))) = None
   \<and> selectedFilePath (fst (handleFileSelect_resume (Inl (HttpStatus 404))
        (fst (handleFileSelect nodeA (app loaded_world))))) = ''/var/www/html/MPK/doc/a.txt''"
  using handleFileSelect_not_found
    [of "Inl (HttpStatus 404)" "HttpStatus 404" nodeA "app loaded_world" "''a.txt''"]
  by (simp add: nodeA_def loaded_world_def initial_world_def initial_state_def deliver_def
      mount_def loadFileTree_def loadStats_def loadFileTree_resume_def loadStats_resume_def
      handleClick_def handleToggleExpanded_def root_node_def)

section \<open>Failed requests\<close>

text \<open>
  Claim C6 as stated fails for the search: the \<^verbatim>\<open>catch\<close> branch of \<^verbatim>\<open>handleSearch\<close>
  calls \<^verbatim>\<open>setSearchResults([])\<close>, so a failed submission empties a result list that
  was not empty.
\<close>

theorem failed_search_clears_results_counterexample:
  "searchResults (busy_state\<lparr>isSearching := False\<rparr>) = [resultA]
   \<and> searchResults
        (fst (handleSearch_resume (Inl NetworkError)
               (fst (handleSearch (busy_state\<lparr>isSearching := False\<rparr>)))))
       \<noteq> searchResults (busy_state\<lparr>isSearching := False\<rparr>)"
  by (simp add: handleSearch_resume_def handleSearch_def busy_state_def initial_state_def
      trim_def isWhiteSpace_def)

text \<open>
  Claim C6, amended. A failed tree load keeps the tree (and every other cell but the
  loading flag, which it clears); a failed statistics load, a failed document
  resolution and a failed rescan request change no cell at all; a failed search
  submission empties the result list and clears the in-flight flag, leaving the query
  and every other cell as they were. Each failure writes one console line, and each
  continuation returns a state: the failure is handled, not propagated.
\<close>

theorem failed_request_frame:
  "fst (loadFileTree_resume (Inl err) s) = s\<lparr>isLoading := False\<rparr>
   \<and> fileTree (fst (loadFileTree_resume (Inl err) s)) = fileTree s
   \<and> snd (loadFileTree_resume (Inl err) s) = [ConsoleError ''Error loading file tree:'']
   \<and> loadStats_resume (Inl err) s = (s, [ConsoleError ''Error loading stats:''])
   \<and> handleFileSelect_resume (Inl err) s = (s, [ConsoleError ''Error loading document:''])
   \<and> step (RescanResponse (Inl err)) s = (s, [ConsoleError ''Error triggering rescan:''])
   \<and> step (InitialScanResponse (Inl err)) s = (s, [ConsoleError []])
   \<and> fst (handleSearch_resume (Inl err) s) = s\<lparr>searchResults := [], isSearching := False\<rparr>
   \<and> searchQuery (fst (handleSearch_resume (Inl err) s)) = searchQuery s
   \<and> snd (handleSearch_resume (Inl err) s) = [ConsoleError ''Search error:'']"
  by (simp add: loadFileTree_resume_def loadStats_resume_def handleFileSelect_resume_failed
      triggerRescan_resume_def initial_scan_resume_def handleSearch_resume_def)

theorem failed_request_frame_witness:
  "fileTree (fst (loadFileTree_resume (Inl NetworkError) (app loaded_world))) = Some root_node
   \<and> snd (loadFileTree_resume (Inl NetworkError) (app loaded_world))
       = [ConsoleError ''Error loading file tree:'']
   \<and> searchResults (fst (handleSearch_resume (Inl NetworkError) busy_state)) = []"
  using failed_request_frame [of NetworkError "app loaded_world"]
    failed_request_frame [of NetworkError busy_state]
  by (simp add: loaded_world_def initial_world_def initial_state_def deliver_def
      mount_def loadFileTree_def loadStats_def loadFileTree_resume_def loadStats_resume_def
      handleClick_def handleToggleExpanded_def root_node_def)

section \<open>Out-of-order resolution\<close>

lemma run_append: "run (evs @ evs') w = run evs' (run evs w)"
  by (induction evs arbitrary: w) simp_all

lemma deliver_DocumentResponse_found:
  "deliver (DocumentResponse (Inr (Some d))) w =
     w\<lparr>app := (app w)\<lparr>previewDocument := Some d\<rparr>\<rparr>"
  by (simp add: deliver_def handleFileSelect_resume_found)

lemma deliver_NodeClick_File:
  "node_type node = File \<Longrightarrow>
   deliver (NodeClick node) w =
     w\<lparr>app := (app w)\<lparr>selectedFilePath := node_path node\<rparr>,
       trace := trace w @
         [Http (GetDocumentByPath (replace ''/var/www/html/MPK/doc/'' [] (node_path node)))]\<rparr>"
  by (simp add: deliver_def handleClick_def handleFileSelect_def loadDocumentByPath_def)

text \<open>
  Claim C1 as stated fails: the continuation of \<^verbatim>\<open>handleFileSelect\<close> does not look at
  the selected path or at any request tag. With node A selected, then node B, B's
  document arriving first and A's last, the preview ends on A's document while the
  selected path is B's.
\<close>

theorem select_race_counterexample:
  "previewDocument (app (run [NodeClick nodeA, NodeClick nodeB,
       DocumentResponse (Inr (Some docB)), DocumentResponse (Inr (Some docA))] loaded_world))
     = Some docA
   \<and> previewDocument (app (run [NodeClick nodeA, NodeClick nodeB,
       DocumentResponse (Inr (Some docB)), DocumentResponse (Inr (Some docA))] loaded_world))
     \<noteq> Some docB
   \<and> selectedFilePath (app (run [NodeClick nodeA, NodeClick nodeB,
       DocumentResponse (Inr (Some docB)), DocumentResponse (Inr (Some docA))] loaded_world))
     = node_path nodeB
   \<and> doc_path docB = node_path nodeB"
  by (simp add: deliver_DocumentResponse_found deliver_NodeClick_File nodeA_def nodeB_def
      docA_def docB_def mk_doc_def)

text \<open>
  Claim C1, amended. The last response to arrive wins, not the last call: a
  resolution that yields a document is applied whenever it arrives, whatever has been
  selected since. So after selecting the file A and then the file B, with B's document
  arriving before A's, the preview document is A's and the selected path is B's; and
  after any sequence of events that ends with the arrival of a document, the preview
  document is that document.
\<close>

theorem select_last_response_wins:
  "(node_type a = File \<and> node_type b = File \<longrightarrow>
      previewDocument (app (run [NodeClick a, NodeClick b,
          DocumentResponse (Inr (Some db)), DocumentResponse (Inr (Some da))] w)) = Some da
      \<and> selectedFilePath (app (run [NodeClick a, NodeClick b,
          DocumentResponse (Inr (Some db)), DocumentResponse (Inr (Some da))] w))
        = node_path b)
   \<and> previewDocument (fst (handleFileSelect_resume (Inr (Some d)) s)) = Some d
   \<and> selectedFilePath (fst (handleFileSelect_resume (Inr (Some d)) s)) = selectedFilePath s
   \<and> previewDocument (app (run (evs @ [DocumentResponse (Inr (Some d))]) w)) = Some d"
  by (simp add: run_append deliver_DocumentResponse_found deliver_NodeClick_File
      handleFileSelect_resume_found)

theorem select_last_response_wins_witness:
  "node_type nodeA = File \<and> node_type nodeB = File
   \<and> previewDocument (app (run [NodeClick nodeA, NodeClick nodeB,
       DocumentResponse (Inr (Some docB)), DocumentResponse (Inr (Some docA))] loaded_world))
     = Some docA
   \<and> selectedFilePath (app (run [NodeClick nodeA, NodeClick nodeB,
       DocumentResponse (Inr (Some docB)), DocumentResponse (Inr (Some docA))] loaded_world))
     = ''/var/www/html/MPK/doc/b.txt''"
  using select_last_response_wins [of nodeA nodeB docB docA loaded_world]
  by (simp add: nodeA_def nodeB_def)

section \<open>Rescan\<close>

lemma deliver_RescanClick:
  "deliver RescanClick w = w\<lparr>trace := trace w @ [Http PostScan]\<rparr>"
  by (simp add: deliver_def triggerRescan_def)

lemma deliver_RescanResponse_ok:
  "deliver (RescanResponse (Inr u)) w =
     w\<lparr>pending_timers := pending_timers w @ [2000],
       trace := trace w @ [SetTimeoutReload 2000]\<rparr>"
  by (simp add: deliver_def triggerRescan_resume_def)

lemma deliver_RescanResponse_failed:
  "deliver (RescanResponse (Inl err)) w =
     w\<lparr>trace := trace w @ [ConsoleError ''Error triggering rescan:'']\<rparr>"
  by (simp add: deliver_def triggerRescan_resume_def)

lemma deliver_TimerFires:
  "deliver TimerFires w =
     (if pending_timers w = [] then w
      else w\<lparr>pending_timers := tl (pending_timers w),
             trace := trace w @ [Http GetFileTree, Http GetStats]\<rparr>)"
  by (simp add: deliver_def reload_callback_def loadFileTree_def loadStats_def)

lemma deliver_keeps_timers:
  "\<not> is_timer ev \<Longrightarrow> prefix (pending_timers w) (pending_timers (deliver ev w))"
  by (simp add: deliver_def split: prod.split)

text \<open>
  Claim C8 as stated fails: \<^verbatim>\<open>triggerRescan\<close> awaits the scan request and sets the
  timer after the \<^verbatim>\<open>await\<close>, inside \<^verbatim>\<open>try\<close>. When the scan request is rejected, no
  timer is set and neither the tree nor the statistics are ever reloaded.
\<close>

theorem rescan_failed_no_reload_counterexample:
  "SetTimeoutReload 2000 \<notin> set (triggerRescan_resume (Inl NetworkError))
   \<and> pending_timers (run [RescanClick, RescanResponse (Inl NetworkError)] loaded_world) = []
   \<and> requests_of (trace (run [RescanClick, RescanResponse (Inl NetworkError), TimerFires]
        loaded_world))
      = requests_of (trace loaded_world) @ [PostScan]"
  by (simp add: triggerRescan_def triggerRescan_resume_def reload_callback_def
      loaded_world_def initial_world_def initial_state_def deliver_def
      mount_def loadFileTree_def loadStats_def loadFileTree_resume_def loadStats_resume_def
      handleClick_def handleToggleExpanded_def root_node_def)

text \<open>
  Claim C8, amended. Every invocation of \<^verbatim>\<open>triggerRescan\<close> issues the scan request
  and nothing else. When that request is answered, one reload of the tree and the
  statistics is scheduled after a fixed delay of 2000 ms; when it is rejected, the
  failure is logged and nothing is scheduled. Timers are never cancelled or merged:
  no event but the running of a timer removes a pending timer, a second invocation
  answered before the first timer has run leaves two timers pending, and each of them
  issues its own reload of the tree and the statistics.
\<close>

theorem rescan_schedules_reload:
  "step RescanClick s = (s, [Http PostScan])
   \<and> step (RescanResponse (Inr u)) s = (s, [SetTimeoutReload 2000])
   \<and> step (RescanResponse (Inl err)) s = (s, [ConsoleError ''Error triggering rescan:''])
   \<and> step TimerFires s = (s, [Http GetFileTree, Http GetStats])
   \<and> (\<not> is_timer ev \<longrightarrow> prefix (pending_timers w) (pending_timers (deliver ev w)))
   \<and> pending_timers (run [RescanClick, RescanResponse (Inr u),
                           RescanClick, RescanResponse (Inr u)] w)
       = pending_timers w @ [2000, 2000]
   \<and> (pending_timers w = [] \<longrightarrow>
        pending_timers (run [RescanClick, RescanResponse (Inr u),
                             RescanClick, RescanResponse (Inr u), TimerFires, TimerFires] w) = []
        \<and> trace (run [RescanClick, RescanResponse (Inr u),
                       RescanClick, RescanResponse (Inr u), TimerFires, TimerFires] w)
           = trace w @ [Http PostScan, SetTimeoutReload 2000, Http PostScan, SetTimeoutReload 2000,
                        Http GetFileTree, Http GetStats, Http GetFileTree, Http GetStats])"
  by (simp add: deliver_keeps_timers deliver_RescanClick deliver_RescanResponse_ok
      deliver_TimerFires triggerRescan_def triggerRescan_resume_def reload_callback_def
      loadFileTree_def loadStats_def)

theorem rescan_schedules_reload_witness:
  "\<not> is_timer RescanClick
   \<and> pending_timers initial_world = []
   \<and> pending_timers (run [RescanClick, RescanResponse (Inr ()),
                           RescanClick, RescanResponse (Inr ())] initial_world) = [2000, 2000]
   \<and> requests_of (trace (run [RescanClick, RescanResponse (Inr ()),
        RescanClick, RescanResponse (Inr ()), TimerFires, TimerFires] initial_world))
      = [PostScan, PostScan, GetFileTree, GetStats, GetFileTree, GetStats]"
  using rescan_schedules_reload [of initial_state "()" NetworkError RescanClick initial_world]
  by (simp add: initial_world_def deliver_def triggerRescan_def triggerRescan_resume_def
      reload_callback_def loadFileTree_def loadStats_def)

section \<open>Expanding the ancestors of a search result\<close>

lemma split_no_separator: "w \<in> set (split c p) \<Longrightarrow> c \<notin> set w"
  by (induction p arbitrary: w) (auto split: if_splits list.splits)

lemma expandLoop_mono: "expanded \<subseteq> expandLoop parts cur expanded"
proof (induction parts arbitrary: cur expanded)
  case Nil
  show ?case by simp
next
  case (Cons part parts)
  have "expanded \<subseteq> insert (cur @ (if cur \<noteq> [] then ''/'' else []) @ part) expanded"
    by (rule subset_insertI)
  also have "\<dots> \<subseteq> expandLoop parts (cur @ (if cur \<noteq> [] then ''/'' else []) @ part)
                   (insert (cur @ (if cur \<noteq> [] then ''/'' else []) @ part) expanded)"
    by (rule Cons.IH)
  finally show ?case by (simp add: Let_def)
qed

lemma expandLoop_inserted:
  assumes "q \<in> expandLoop parts cur expanded" and "q \<notin> expanded"
    and "\<forall>w\<in>set parts. c \<notin> set w" and "cur = [] \<or> hd cur \<noteq> c"
  shows "q = [] \<or> hd q \<noteq> c"
  using assms
proof (induction parts arbitrary: cur expanded)
  case Nil
  then show ?case by simp
next
  case (Cons part parts)
  define cur' where "cur' = cur @ (if cur \<noteq> [] then ''/'' else []) @ part"
  have part: "c \<notin> set part" using Cons.prems(3) by simp
  have inv: "cur' = [] \<or> hd cur' \<noteq> c"
  proof (cases "cur = []")
    case True
    then have "cur' = part" by (simp add: cur'_def)
    with part show ?thesis by (cases part) auto
  next
    case False
    with Cons.prems(4) show ?thesis by (simp add: cur'_def)
  qed
  have mem: "q \<in> expandLoop parts cur' (insert cur' expanded)"
    using Cons.prems(1) by (simp add: cur'_def Let_def)
  show ?case
  proof (cases "q = cur'")
    case True
    with inv show ?thesis by simp
  next
    case False
    with Cons.prems(2) have "q \<notin> insert cur' expanded" by simp
    with mem inv Cons.prems(3) show ?thesis
      using Cons.IH [of cur' "insert cur' expanded"] by simp
  qed
qed

lemma expandAncestorsOf_mono: "expanded \<subseteq> expandAncestorsOf p expanded"
  by (simp add: expandAncestorsOf_def Let_def expandLoop_mono)

text \<open>
  Whatever the path, no string the loop adds to the expansion set starts with a
  slash: the first piece of an absolute path is empty, so the separator before the
  second piece is left out and every accumulated path lacks its leading slash.
\<close>

lemma expandAncestorsOf_inserted_relative:
  assumes "q \<in> expandAncestorsOf p expanded" and "q \<notin> expanded"
  shows "\<not> prefix ''/'' q"
proof -
  have "\<forall>w\<in>set (take (length (split (CHR ''/'') p) - 1) (split (CHR ''/'') p)).
          CHR ''/'' \<notin> set w"
    by (meson in_set_takeD split_no_separator)
  with assms have "q = [] \<or> hd q \<noteq> CHR ''/''"
    using expandLoop_inserted
      [of q "take (length (split (CHR ''/'') p) - 1) (split (CHR ''/'') p)" "[]" expanded
        "CHR ''/''"]
    by (simp add: expandAncestorsOf_def Let_def)
  then show ?thesis by (cases q) auto
qed

lemma split_nonempty: "split c p \<noteq> []"
  by (induction p) (auto split: list.splits)

lemma split_single: "c \<notin> set w \<Longrightarrow> split c w = [w]"
  by (induction w) auto

lemma split_first: "c \<notin> set w \<Longrightarrow> split c (w @ c # rest) = w # split c rest"
  by (induction w) (auto split: list.splits)

lemma slash_positions:
  assumes "c \<notin> set w"
  shows "{pre @ take i (w @ c # rest) | i. i < length (w @ c # rest) \<and> (w @ c # rest) ! i = c}
       = insert (pre @ w) {(pre @ w @ [c]) @ take j rest | j. j < length rest \<and> rest ! j = c}"
    (is "?L = ?R")
proof (rule set_eqI, rule iffI)
  fix q assume "q \<in> ?L"
  then obtain i where i: "i < length (w @ c # rest)" "(w @ c # rest) ! i = c"
    and q: "q = pre @ take i (w @ c # rest)" by blast
  have "\<not> i < length w"
  proof
    assume "i < length w"
    then have "(w @ c # rest) ! i \<in> set w" by (simp add: nth_append)
    with i(2) assms show False by simp
  qed
  then have ge: "length w \<le> i" by simp
  show "q \<in> ?R"
  proof (cases "i = length w")
    case True
    then show ?thesis using q by simp
  next
    case False
    with ge obtain j where j: "i = Suc (length w + j)"
      by (metis add_Suc_right less_iff_Suc_add nat_less_le)
    with i have "j < length rest" "rest ! j = c" by (simp_all add: nth_append)
    moreover have "q = (pre @ w @ [c]) @ take j rest" using q j by simp
    ultimately show ?thesis by blast
  qed
next
  fix q assume "q \<in> ?R"
  then consider "q = pre @ w"
    | j where "j < length rest" "rest ! j = c" "q = (pre @ w @ [c]) @ take j rest" by blast
  then show "q \<in> ?L"
  proof cases
    case 1
    have "length w < length (w @ c # rest)" "(w @ c # rest) ! length w = c"
      "q = pre @ take (length w) (w @ c # rest)" using 1 by simp_all
    then show ?thesis by blast
  next
    case 2
    have "Suc (length w + j) < length (w @ c # rest)"
      "(w @ c # rest) ! Suc (length w + j) = c"
      "q = pre @ take (Suc (length w + j)) (w @ c # rest)"
      using 2 by (simp_all add: nth_append)
    then show ?thesis by blast
  qed
qed

lemma expandLoop_positions:
  assumes "cur \<noteq> [] \<or> \<not> prefix ''/'' rest"
  shows "expandLoop (butlast (split (CHR ''/'') rest)) cur expanded
       = expanded \<union> {(cur @ (if cur \<noteq> [] then ''/'' else [])) @ take i rest | i.
                         i < length rest \<and> rest ! i = CHR ''/''}"
  using assms
proof (induction rest arbitrary: cur expanded rule: length_induct)
  case (1 rest)
  show ?case
  proof (cases "CHR ''/'' \<in> set rest")
    case False
    then have "\<And>i. i < length rest \<Longrightarrow> rest ! i \<noteq> CHR ''/''"
      by (metis nth_mem)
    with False show ?thesis by (auto simp: split_single)
  next
    case True
    then obtain w rest' where dec: "rest = w @ CHR ''/'' # rest'" "CHR ''/'' \<notin> set w"
      by (meson split_list_first)
    define cur' where "cur' = cur @ (if cur \<noteq> [] then ''/'' else []) @ w"
    have nonempty: "cur' \<noteq> []"
      using "1.prems" dec by (cases w) (auto simp: cur'_def)
    have shorter: "length rest' < length rest" using dec by simp
    have loop: "expandLoop (butlast (split (CHR ''/'') rest)) cur expanded
        = expandLoop (butlast (split (CHR ''/'') rest')) cur' (insert cur' expanded)"
      using dec by (simp add: split_first split_nonempty cur'_def Let_def)
    also have "\<dots> = insert cur' expanded \<union> {(cur' @ ''/'') @ take j rest' | j.
                         j < length rest' \<and> rest' ! j = CHR ''/''}"
      using "1.IH" shorter nonempty by simp
    also have "\<dots> = expanded \<union> {(cur @ (if cur \<noteq> [] then ''/'' else [])) @ take i rest | i.
                         i < length rest \<and> rest ! i = CHR ''/''}"
      using slash_positions [OF dec(2), of "cur @ (if cur \<noteq> [] then ''/'' else [])" rest']
      unfolding dec(1) cur'_def by auto
    finally show ?thesis .
  qed
qed

text \<open>
  For a path that does not start with a slash the loop is right: it adds exactly the
  prefixes of the path that end just before a slash, that is, its proper ancestors.
\<close>

lemma expandAncestorsOf_relative:
  assumes "\<not> prefix ''/'' p"
  shows "expandAncestorsOf p expanded
       = expanded \<union> {take i p | i. i < length p \<and> p ! i = CHR ''/''}"
  using expandLoop_positions [of "[]" p expanded] assms
  by (simp add: expandAncestorsOf_def Let_def butlast_conv_take)

lemma expandLoop_insert:
  "expandLoop parts cur (insert x expanded) = insert x (expandLoop parts cur expanded)"
  by (induction parts arbitrary: cur expanded) (simp_all add: Let_def insert_commute)

text \<open>
  A leading slash is dropped: the path is treated like the path without it, and the
  empty string is added.
\<close>

lemma expandAncestorsOf_leading_slash:
  "expandAncestorsOf (CHR ''/'' # rest) expanded = insert [] (expandAncestorsOf rest expanded)"
proof -
  have parts: "take (length (split (CHR ''/'') (CHR ''/'' # rest)) - 1)
                 (split (CHR ''/'') (CHR ''/'' # rest))
               = [] # take (length (split (CHR ''/'') rest) - 1) (split (CHR ''/'') rest)"
    using split_nonempty [of "CHR ''/''" rest]
    by (cases "split (CHR ''/'') rest") simp_all
  show ?thesis
    unfolding expandAncestorsOf_def Let_def parts
    by (simp add: expandLoop_insert)
qed

lemma expandAncestorsOf_relative_path:
  "expandAncestorsOf ''a/b/c.txt'' {} = {''a'', ''a/b''}"
  by (simp add: expandAncestorsOf_def Let_def insert_commute)

text \<open>
  Claim C3 at the claim's own input. For the absolute path \<^verbatim>\<open>/a/b/c.txt\<close> the loop adds
  the empty string, \<^verbatim>\<open>a\<close> and \<^verbatim>\<open>a/b\<close>: the ancestors \<^verbatim>\<open>/a\<close> and \<^verbatim>\<open>/a/b\<close> are not
  expanded afterwards, and three strings that are not ancestors of the path are.
\<close>

theorem expandAncestorsOf_absolute_path:
  "expandAncestorsOf ''/a/b/c.txt'' {} = {[], ''a'', ''a/b''}
   \<and> \<not> isExpanded (expandAncestorsOf ''/a/b/c.txt'' {}) ''/a''
   \<and> \<not> isExpanded (expandAncestorsOf ''/a/b/c.txt'' {}) ''/a/b''
   \<and> \<not> isExpanded (expandAncestorsOf ''/a/b/c.txt'' {}) ''/a/b/c.txt''
   \<and> isExpanded (expandAncestorsOf ''/a/b/c.txt'' {}) ''a''
   \<and> isExpanded (expandAncestorsOf ''/a/b/c.txt'' {}) []"
  by (simp add: expandAncestorsOf_def Let_def isExpanded_def insert_commute)

text \<open>
  Claim C4 at a result of the sample corpus. Activating the result for
  \<^verbatim>\<open>/var/www/html/MPK/doc/reports/budget.txt\<close> sets the selected path and the preview
  document in the one handler and sends no request, but the folder
  \<^verbatim>\<open>/var/www/html/MPK/doc/reports\<close> is not expanded afterwards, so the tree does not
  render the selected file; likewise for \<^verbatim>\<open>/a/b/c.txt\<close>.
\<close>

theorem handleResultClick_absolute_path:
  "selectedFilePath (fst (handleResultClick budget_result (app loaded_world)))
     = ''/var/www/html/MPK/doc/reports/budget.txt''
   \<and> previewDocument (fst (handleResultClick budget_result (app loaded_world)))
     = Some (document budget_result)
   \<and> snd (handleResultClick budget_result (app loaded_world)) = []
   \<and> \<not> isExpanded (expandedPaths (fst (handleResultClick budget_result (app loaded_world))))
         ''/var/www/html/MPK/doc/reports''
   \<and> rendered_paths (expandedPaths (fst (handleResultClick budget_result (app loaded_world))))
         root_node
     = [''/var/www/html/MPK/doc'', ''/var/www/html/MPK/doc/a.txt'',
        ''/var/www/html/MPK/doc/b.txt'', ''/var/www/html/MPK/doc/reports'']
   \<and> \<not> isExpanded (expandedPaths (fst (handleResultClick abc_result initial_state))) ''/a''
   \<and> \<not> isExpanded (expandedPaths (fst (handleResultClick abc_result initial_state))) ''/a/b''"
  by (simp add: handleResultClick_def budget_result_def abc_result_def mk_doc_def
      expandAncestorsOf_def Let_def isExpanded_def
      loaded_world_def initial_world_def initial_state_def deliver_def
      mount_def loadFileTree_def loadStats_def loadFileTree_resume_def loadStats_resume_def
      handleClick_def handleToggleExpanded_def toggle_def
      root_node_def reports_node_def budget_node_def nodeA_def nodeB_def)

text \<open>
  What \<^verbatim>\<open>handleResultClick\<close> does for every result and state: the three cells are
  written by the one synchronous handler, no request is sent, nothing leaves the
  expansion set, no other cell changes, and no string starting with a slash enters the
  expansion set.
\<close>

lemma handleResultClick_frame:
  "selectedFilePath (fst (handleResultClick r s)) = doc_path (document r)
   \<and> previewDocument (fst (handleResultClick r s)) = Some (document r)
   \<and> snd (handleResultClick r s) = []
   \<and> expandedPaths s \<subseteq> expandedPaths (fst (handleResultClick r s))
   \<and> searchQuery (fst (handleResultClick r s)) = searchQuery s
   \<and> searchResults (fst (handleResultClick r s)) = searchResults s
   \<and> isSearching (fst (handleResultClick r s)) = isSearching s
   \<and> fileTree (fst (handleResultClick r s)) = fileTree s"
  by (simp add: handleResultClick_def expandAncestorsOf_mono)

lemma handleResultClick_never_expands_absolute:
  "prefix ''/'' q \<Longrightarrow> q \<notin> expandedPaths s
     \<Longrightarrow> q \<notin> expandedPaths (fst (handleResultClick r s))"
  using expandAncestorsOf_inserted_relative [of q "doc_path (document r)" "expandedPaths s"]
  by (auto simp: handleResultClick_def)

end
